theory Spec2Isabelle
  imports Complex_Main
begin

section \<open>JavaScript values and built-ins used by the client\<close>

text \<open>
  A string is the list of its code units; the model covers code units below 256.
  A value of TypeScript type \<open>any\<close> (what \<open>response.json()\<close> resolves to) is a
  \<open>json_value\<close>; \<open>undefined\<close>, the result of reading a property an object does not
  have, is \<open>None\<close> of \<open>json_value option\<close>. A number carries its numeric value.
\<close>

datatype json_value =
    JNull
  | JBool bool
  | JNum real
  | JStr string
  | JArr "json_value list"
  | JObj "(string \<times> json_value) list"

text \<open>A thrown value: an error object with its constructor's name and its message.\<close>

datatype exn = Exn (name: string) (message: string)

abbreviation Error :: "string \<Rightarrow> exn" where
  "Error m \<equiv> Exn ''Error'' m"

text \<open>Truthiness, as \<open>!v\<close>, \<open>v || d\<close> and \<open>c ? a : b\<close> test it.\<close>

fun truthy :: "json_value \<Rightarrow> bool" where
  "truthy JNull = False"
| "truthy (JBool b) = b"
| "truthy (JNum x) = (x \<noteq> 0)"
| "truthy (JStr s) = (s \<noteq> [])"
| "truthy (JArr xs) = True"
| "truthy (JObj kvs) = True"

definition truthy_string :: "string option \<Rightarrow> bool" where
  "truthy_string v = (case v of None \<Rightarrow> False | Some s \<Rightarrow> s \<noteq> [])"

text \<open>\<open>v || d\<close> where \<open>v\<close> is a property that may be undefined and \<open>d\<close> a string literal.\<close>

definition or_else :: "json_value option \<Rightarrow> string \<Rightarrow> json_value" where
  "or_else v d = (case v of None \<Rightarrow> JStr d | Some x \<Rightarrow> if truthy x then x else JStr d)"

text \<open>\<open>s || d\<close> on strings.\<close>

definition or_else_string :: "string \<Rightarrow> string \<Rightarrow> string" where
  "or_else_string s d = (if s \<noteq> [] then s else d)"

text \<open>
  \<open>data.k\<close> for the property names this program reads (\<open>message\<close>,
  \<open>estimatedCompletionTime\<close>): reading a property of \<open>null\<close> throws a TypeError,
  an object yields its own property or undefined, every other value yields undefined.
\<close>

fun get_prop :: "json_value \<Rightarrow> string \<Rightarrow> exn + json_value option" where
  "get_prop JNull k =
     Inl (Exn ''TypeError''
       (''Cannot read properties of null (reading '' @ [CHR 0x27] @ k @ [CHR 0x27] @ '')''))"
| "get_prop (JObj kvs) k = Inr (map_of kvs k)"
| "get_prop v k = Inr None"

fun join :: "string \<Rightarrow> string list \<Rightarrow> string" where
  "join sep [] = []"
| "join sep [x] = x"
| "join sep (x # y # ys) = x @ sep @ join sep (y # ys)"

text \<open>
  The conversion to a string that \<open>new Error(v)\<close> and \<open>new Date(v)\<close> apply;
  \<open>num\<close> is the platform's conversion of a number. An object lists its own
  properties, each key once. An object parsed from JSON is converted by
  \<open>Object.prototype.toString\<close>, unless it has an own property \<open>toString\<close>: that
  value is not callable, \<open>valueOf\<close> gives no primitive either, and the conversion
  throws a TypeError. An array joins the conversions of its elements from left to
  right, null as the empty string.
\<close>

fun ToString :: "(real \<Rightarrow> string) \<Rightarrow> json_value \<Rightarrow> exn + string"
  and ToString_elements :: "(real \<Rightarrow> string) \<Rightarrow> json_value list \<Rightarrow> exn + string list" where
  "ToString num JNull = Inr ''null''"
| "ToString num (JBool b) = Inr (if b then ''true'' else ''false'')"
| "ToString num (JNum x) = Inr (num x)"
| "ToString num (JStr s) = Inr s"
| "ToString num (JArr xs) =
     (case ToString_elements num xs of
        Inl err \<Rightarrow> Inl err
      | Inr ss \<Rightarrow> Inr (join '','' ss))"
| "ToString num (JObj kvs) =
     (if map_of kvs ''toString'' \<noteq> None
      then Inl (Exn ''TypeError'' ''Cannot convert object to primitive value'')
      else Inr ''[object Object]'')"
| "ToString_elements num [] = Inr []"
| "ToString_elements num (x # xs) =
     (case (if x = JNull then Inr [] else ToString num x) of
        Inl err \<Rightarrow> Inl err
      | Inr s \<Rightarrow>
          (case ToString_elements num xs of
             Inl err \<Rightarrow> Inl err
           | Inr ss \<Rightarrow> Inr (s # ss)))"

text \<open>Decimal digits of an integer, as a template literal renders it.\<close>

function string_of_nat :: "nat \<Rightarrow> string" where
  "string_of_nat n =
     (if n < 10 then [''0123456789'' ! n]
      else string_of_nat (n div 10) @ [''0123456789'' ! (n mod 10)])"
  by pat_completeness auto
termination
  by (relation "measure id") auto

declare string_of_nat.simps [simp del]

definition string_of_int :: "int \<Rightarrow> string" where
  "string_of_int i = (if i < 0 then ''-'' @ string_of_nat (nat (- i)) else string_of_nat (nat i))"

text \<open>
  \<open>Math.round\<close>: the nearest integer, a tie going up. The argument is taken as the
  exact quotient; for a whole number of milliseconds below 2^38 minutes divided by
  60000 the double that JavaScript rounds lies on the same side of every half-integer.
\<close>

definition Math_round :: "real \<Rightarrow> int" where
  "Math_round x = \<lfloor>x + 1 / 2\<rfloor>"

text \<open>
  White space and line terminators that \<open>String.prototype.trim\<close> strips, among the
  code units below 256: TAB, LF, VT, FF, CR, SP and NBSP.
\<close>

definition isWhiteSpace :: "char \<Rightarrow> bool" where
  "isWhiteSpace c = ((of_char c :: nat) \<in> set [9, 10, 11, 12, 13, 32, 160])"

definition trim :: "string \<Rightarrow> string" where
  "trim s = rev (dropWhile isWhiteSpace (rev (dropWhile isWhiteSpace s)))"

definition endsWith :: "string \<Rightarrow> string \<Rightarrow> bool" where
  "endsWith s t = (length t \<le> length s \<and> drop (length s - length t) s = t)"

definition Array_includes :: "'a list \<Rightarrow> 'a \<Rightarrow> bool" where
  "Array_includes xs x = (x \<in> set xs)"

section \<open>The browser: network, storage, configuration\<close>

record File =
  name :: string
  size' :: nat
  type :: string

datatype form_entry = Field string | Attachment File

datatype request_body =
    NoBody
  | JsonBody json_value
  | FormData "(string \<times> form_entry) list"

record request =
  url :: string
  method' :: string
  headers :: "(string \<times> string) list"
  body :: request_body

text \<open>
  A response: its \<open>ok\<close> flag and what \<open>await response.json()\<close> gives, a parsed
  value or the error thrown for a body that is not JSON.
\<close>

record response =
  ok :: bool
  json :: "exn + json_value"

text \<open>
  What the source takes from its platform: the build-time variable \<open>VITE_API_URL\<close>,
  \<open>fetch\<close> (a response, or the error of a rejected request), the conversion of a
  number to a string and \<open>Date.parse\<close> (\<open>None\<close> is NaN, an invalid date).
\<close>

record env =
  VITE_API_URL :: "string option"
  fetch :: "request \<Rightarrow> exn + response"
  Number_toString :: "real \<Rightarrow> string"
  Date_parse :: "string \<Rightarrow> int option"

text \<open>The mutable world: local storage and the log of the requests issued so far.\<close>

record world =
  localStorage :: "string \<rightharpoonup> string"
  requests :: "request list"

type_synonym 'a io = "world \<Rightarrow> (exn + 'a) \<times> world"

definition io_return :: "'a \<Rightarrow> 'a io" where
  "io_return x = (\<lambda>w. (Inr x, w))"

definition io_throw :: "exn \<Rightarrow> 'a io" where
  "io_throw e = (\<lambda>w. (Inl e, w))"

definition io_bind :: "'a io \<Rightarrow> ('a \<Rightarrow> 'b io) \<Rightarrow> 'b io" where
  "io_bind m f = (\<lambda>w. case m w of (Inl e, w') \<Rightarrow> (Inl e, w') | (Inr x, w') \<Rightarrow> f x w')"

definition try_catch :: "'a io \<Rightarrow> (exn \<Rightarrow> 'a io) \<Rightarrow> 'a io" where
  "try_catch m h = (\<lambda>w. case m w of (Inl e, w') \<Rightarrow> h e w' | (Inr x, w') \<Rightarrow> (Inr x, w'))"

text \<open>Awaiting a computation that touches nothing: \<open>response.json()\<close>, a property read.\<close>

definition io_lift :: "exn + 'a \<Rightarrow> 'a io" where
  "io_lift r = (\<lambda>w. (r, w))"

definition getItem :: "string \<Rightarrow> string option io" where
  "getItem k = (\<lambda>w. (Inr (localStorage w k), w))"

definition removeItem :: "string \<Rightarrow> world \<Rightarrow> world" where
  "removeItem k w = w\<lparr>localStorage := (localStorage w)(k := None)\<rparr>"

definition do_fetch :: "env \<Rightarrow> request \<Rightarrow> response io" where
  "do_fetch e req = (\<lambda>w. (fetch e req, w\<lparr>requests := requests w @ [req]\<rparr>))"

section \<open>services/api.ts\<close>

definition API_BASE_URL :: "env \<Rightarrow> string" where
  "API_BASE_URL e =
     (case VITE_API_URL e of
        None \<Rightarrow> ''https://310c-137-151-175-115.ngrok-free.app''
      | Some u \<Rightarrow> if u \<noteq> [] then u else ''https://310c-137-151-175-115.ngrok-free.app'')"

record TokenValidationResponse =
  valid :: bool

text \<open>The template \<open>Bearer ${token}\<close>; a null token renders as \<open>null\<close>.\<close>

definition bearer :: "string option \<Rightarrow> string" where
  "bearer token = ''Bearer '' @ (case token of None \<Rightarrow> ''null'' | Some t \<Rightarrow> t)"

definition login_request :: "env \<Rightarrow> string \<Rightarrow> string \<Rightarrow> request" where
  "login_request e username password =
     \<lparr>url = API_BASE_URL e @ ''/auth/login'', method' = ''POST'',
      headers = [(''Content-Type'', ''application/json'')],
      body = JsonBody (JObj [(''username'', JStr username), (''password'', JStr password)])\<rparr>"

definition login :: "env \<Rightarrow> string \<Rightarrow> string \<Rightarrow> json_value io" where
  "login e username password =
     try_catch
       (io_bind (do_fetch e (login_request e username password)) (\<lambda>response.
        io_bind (io_lift (json response)) (\<lambda>data.
          if \<not> ok response then
            io_bind (io_lift (get_prop data ''message'')) (\<lambda>m.
            io_bind (io_lift (ToString (Number_toString e) (or_else m ''Login failed''))) (\<lambda>msg.
              io_throw (Error msg)))
          else io_return data)))
       (\<lambda>error. io_return
          (JObj [(''success'', JBool False),
                 (''message'', JStr (or_else_string (message error) ''Login failed''))]))"

definition validate_request :: "env \<Rightarrow> string option \<Rightarrow> request" where
  "validate_request e token =
     \<lparr>url = API_BASE_URL e @ ''/auth/validate'', method' = ''GET'',
      headers = [(''Authorization'', bearer token)], body = NoBody\<rparr>"

definition validateToken :: "env \<Rightarrow> TokenValidationResponse io" where
  "validateToken e =
     try_catch
       (io_bind (getItem ''phoneComputeToken'') (\<lambda>token.
          if \<not> truthy_string token then io_return \<lparr>valid = False\<rparr>
          else
            io_bind (do_fetch e (validate_request e token)) (\<lambda>response.
              if \<not> ok response then io_return \<lparr>valid = False\<rparr>
              else io_return \<lparr>valid = True\<rparr>)))
       (\<lambda>error. io_return \<lparr>valid = False\<rparr>)"

definition status_request :: "env \<Rightarrow> string option \<Rightarrow> request" where
  "status_request e token =
     \<lparr>url = API_BASE_URL e @ ''/status'', method' = ''GET'',
      headers = [(''Authorization'', bearer token)], body = NoBody\<rparr>"

definition getStatus :: "env \<Rightarrow> json_value io" where
  "getStatus e =
     try_catch
       (io_bind (getItem ''phoneComputeToken'') (\<lambda>token.
        io_bind (do_fetch e (status_request e token)) (\<lambda>response.
          if \<not> ok response then io_throw (Error ''Failed to fetch status'')
          else io_lift (json response))))
       (\<lambda>error. io_return
          (JObj [(''availablePhones'', JNum 0), (''busyPhones'', JNum 0),
                 (''averageProcessingTime'', JNum 0)]))"

definition tasks_request :: "env \<Rightarrow> string option \<Rightarrow> request" where
  "tasks_request e token =
     \<lparr>url = API_BASE_URL e @ ''/tasks'', method' = ''GET'',
      headers = [(''Authorization'', bearer token)], body = NoBody\<rparr>"

definition getTasks :: "env \<Rightarrow> json_value io" where
  "getTasks e =
     try_catch
       (io_bind (getItem ''phoneComputeToken'') (\<lambda>token.
        io_bind (do_fetch e (tasks_request e token)) (\<lambda>response.
          if \<not> ok response then io_throw (Error ''Failed to fetch tasks'')
          else io_lift (json response))))
       (\<lambda>error. io_return (JArr []))"

definition formData :: "string \<Rightarrow> File option \<Rightarrow> (string \<times> form_entry) list" where
  "formData code file =
     (if trim code \<noteq> [] then [(''code'', Field code)] else []) @
     (case file of None \<Rightarrow> [] | Some f \<Rightarrow> [(''file'', Attachment f)])"

definition submit_request :: "env \<Rightarrow> string option \<Rightarrow> string \<Rightarrow> File option \<Rightarrow> request" where
  "submit_request e token code file =
     \<lparr>url = API_BASE_URL e @ ''/tasks'', method' = ''POST'',
      headers = [(''Authorization'', bearer token)], body = FormData (formData code file)\<rparr>"

definition submitTask :: "env \<Rightarrow> string \<Rightarrow> File option \<Rightarrow> json_value io" where
  "submitTask e code file =
     try_catch
       (io_bind (getItem ''phoneComputeToken'') (\<lambda>token.
        io_bind (do_fetch e (submit_request e token code file)) (\<lambda>response.
          if \<not> ok response then
            io_bind (io_lift (json response)) (\<lambda>errorData.
            io_bind (io_lift (get_prop errorData ''message'')) (\<lambda>m.
            io_bind (io_lift (ToString (Number_toString e) (or_else m ''Failed to submit task'')))
              (\<lambda>msg. io_throw (Error msg))))
          else io_lift (json response))))
       (\<lambda>error. io_throw error)"

section \<open>AuthContext.tsx\<close>

record AuthState =
  userToken :: "string option"
  isLoading :: bool

text \<open>The initial state of \<open>AuthProvider\<close>: the token read from local storage.\<close>

definition AuthProvider_init :: "world \<Rightarrow> AuthState" where
  "AuthProvider_init w = \<lparr>userToken = localStorage w ''phoneComputeToken'', isLoading = False\<rparr>"

text \<open>The flag of the context value: \<open>isAuthenticated: !!userToken\<close>.\<close>

definition isAuthenticated :: "AuthState \<Rightarrow> bool" where
  "isAuthenticated s = truthy_string (userToken s)"

definition logout :: "AuthState \<times> world \<Rightarrow> AuthState \<times> world" where
  "logout sw = (case sw of (s, w) \<Rightarrow>
     (s\<lparr>userToken := None\<rparr>, removeItem ''phoneComputeToken'' w))"

section \<open>TaskSubmissionPage.tsx\<close>

text \<open>
  The state of the page. A task is the value the service returned for it; the
  interface \<open>Task\<close> names the properties the page reads from it.
\<close>

type_synonym Task = json_value

record page =
  code :: string
  "file" :: "File option"
  isSubmitting :: bool
  error :: "string option"
  phoneStatus :: "json_value option"
  userTasks :: "Task list"

definition MAX_FILE_SIZE :: nat where
  "MAX_FILE_SIZE = 5 * 1024 * 1024"

definition allowedTypes :: "string list" where
  "allowedTypes = [''text/javascript'', ''application/javascript'', ''application/json'', ''text/plain'']"

text \<open>\<open>handleFileChange\<close>; its argument is \<open>e.target.files?.[0]\<close>.\<close>

definition handleFileChange :: "File option \<Rightarrow> page \<Rightarrow> page" where
  "handleFileChange selected p =
     (case selected of
        None \<Rightarrow> p
      | Some selectedFile \<Rightarrow>
          if size' selectedFile > MAX_FILE_SIZE then
            p\<lparr>error := Some (''File size exceeds the maximum limit of '' @
                 string_of_nat (MAX_FILE_SIZE div 1024 div 1024) @ ''MB'')\<rparr>
          else if \<not> Array_includes allowedTypes (type selectedFile) \<and>
                  \<not> endsWith (name selectedFile) ''.js'' then
            p\<lparr>error := Some ''Please upload a JavaScript file (.js) or JSON data file''\<rparr>
          else p\<lparr>file := Some selectedFile, error := None\<rparr>)"

text \<open>
  \<open>handleSubmit\<close>, run from the submit event to the end of its \<open>finally\<close> block
  with no other event in between.
\<close>

definition handleSubmit :: "env \<Rightarrow> page \<times> world \<Rightarrow> page \<times> world" where
  "handleSubmit e pw = (case pw of (p, w) \<Rightarrow>
     if trim (code p) = [] \<and> file p = None then
       (p\<lparr>error := Some ''Please provide JavaScript code or attach a file''\<rparr>, w)
     else
       let p1 = p\<lparr>isSubmitting := True, error := None\<rparr> in
       (case submitTask e (code p) (file p) w of
          (Inr taskData, w') \<Rightarrow>
            (p1\<lparr>userTasks := taskData # userTasks p1, code := [], file := None,
                isSubmitting := False\<rparr>, w')
        | (Inl err, w') \<Rightarrow>
            (p1\<lparr>error := Some (or_else_string (message err)
                   ''Failed to submit task. Please try again.''),
                isSubmitting := False\<rparr>, w')))"

text \<open>The events the form wires to its handlers.\<close>

datatype event = CodeChange string | FileChange "File option" | Submit

fun dispatch :: "env \<Rightarrow> event \<Rightarrow> page \<times> world \<Rightarrow> page \<times> world" where
  "dispatch e (CodeChange v) (p, w) = (p\<lparr>code := v\<rparr>, w)"
| "dispatch e (FileChange selected) (p, w) = (handleFileChange selected p, w)"
| "dispatch e Submit (p, w) = handleSubmit e (p, w)"

text \<open>\<open>TimeClip\<close>: a time value is an integer of at most 8.64e15 in magnitude.\<close>

definition TimeClip :: "real \<Rightarrow> int option" where
  "TimeClip x =
     (if \<bar>x\<bar> > 8640000000000000 then None
      else Some (if x \<ge> 0 then \<lfloor>x\<rfloor> else \<lceil>x\<rceil>))"

text \<open>
  The time value of \<open>new Date(v)\<close>: a string is parsed, an array or an object is
  converted to a string (which may throw) and parsed, any other value is converted to
  a number.
\<close>

definition new_Date :: "env \<Rightarrow> json_value \<Rightarrow> exn + int option" where
  "new_Date e v =
     (case v of
        JStr s \<Rightarrow> Inr (Date_parse e s)
      | JNum x \<Rightarrow> Inr (TimeClip x)
      | JBool b \<Rightarrow> Inr (Some (if b then 1 else 0))
      | JNull \<Rightarrow> Inr (Some 0)
      | _ \<Rightarrow>
          (case ToString (Number_toString e) v of
             Inl err \<Rightarrow> Inl err
           | Inr s \<Rightarrow> Inr (Date_parse e s)))"

text \<open>
  \<open>formatEstimatedTime\<close>; \<open>now\<close> is the time value of \<open>new Date()\<close>. With an
  invalid date every comparison is false and the last template renders NaN.
\<close>

definition formatEstimatedTime :: "env \<Rightarrow> int \<Rightarrow> Task \<Rightarrow> exn + string" where
  "formatEstimatedTime e now task =
     (case get_prop task ''estimatedCompletionTime'' of
        Inl err \<Rightarrow> Inl err
      | Inr None \<Rightarrow> Inr ''Unknown''
      | Inr (Some v) \<Rightarrow>
          if \<not> truthy v then Inr ''Unknown''
          else
            (case new_Date e v of
               Inl err \<Rightarrow> Inl err
             | Inr None \<Rightarrow> Inr ''NaN hour ''
             | Inr (Some estimatedDate) \<Rightarrow>
                 if estimatedDate < now then Inr ''Processing is taking longer than expected''
                 else
                   let diffMs = estimatedDate - now;
                       diffMins = Math_round (real_of_int diffMs / 60000)
                   in
                     if diffMins < 1 then Inr ''Less than a minute''
                     else if diffMins = 1 then Inr ''1 minute''
                     else if diffMins < 60 then Inr (string_of_int diffMins @ '' minutes'')
                     else
                       let hours = diffMins div 60; mins = diffMins mod 60 in
                       Inr (string_of_int hours @ '' hour'' @ (if hours > 1 then ''s'' else []) @
                            '' '' @
                            (if mins > 0
                             then string_of_int mins @ '' minute'' @ (if mins > 1 then ''s'' else [])
                             else []))))"

text \<open>The page before any event: the initial values of its state variables.\<close>

definition page0 :: page where
  "page0 = \<lparr>code = [], file = None, isSubmitting = False, error = None,
             phoneStatus = None, userTasks = []\<rparr>"

text \<open>A failure of a request: \<open>fetch\<close> rejects, or the response is not OK.\<close>

definition request_fails :: "env \<Rightarrow> request \<Rightarrow> bool" where
  "request_fails e req = (case fetch e req of Inl err \<Rightarrow> True | Inr r \<Rightarrow> \<not> ok r)"

section \<open>Concrete inputs\<close>

text \<open>A task as the service returns it, a service that accepts every request, and a
  world holding a token.\<close>

definition task_json :: json_value where
  "task_json = JObj [(''id'', JStr ''task123''), (''status'', JStr ''pending''),
                     (''code'', JStr ''return 42''), (''createdAt'', JStr ''2025-01-01T00:00:00.000Z'')]"

definition env_ok :: env where
  "env_ok = \<lparr>VITE_API_URL = None,
             fetch = (\<lambda>req. Inr \<lparr>ok = True, json = Inr task_json\<rparr>),
             Number_toString = (\<lambda>x. []),
             Date_parse = (\<lambda>s. if s = ''2025-01-01T00:01:30.000Z'' then Some 1735689690000 else None)\<rparr>"

definition world0 :: world where
  "world0 = \<lparr>localStorage = [''phoneComputeToken'' \<mapsto> ''mock-token-12345''], requests = []\<rparr>"

text \<open>
  Services that fail: the network is down; every request is refused with a message;
  a gateway answers with an error page that is not JSON; a refusal whose message is
  an object that cannot be converted to a string; a refusal without a message.
\<close>

definition env_down :: env where
  "env_down = env_ok\<lparr>fetch := (\<lambda>req. Inl (Exn ''TypeError'' ''Failed to fetch''))\<rparr>"

definition env_rejecting :: env where
  "env_rejecting = env_ok\<lparr>fetch := (\<lambda>req.
     Inr \<lparr>ok = False, json = Inr (JObj [(''message'', JStr ''Queue is full'')])\<rparr>)\<rparr>"

definition env_gateway :: env where
  "env_gateway = env_ok\<lparr>fetch := (\<lambda>req.
     Inr \<lparr>ok = False, json = Inl (Exn ''SyntaxError'' ''Unexpected token < in JSON at position 0'')\<rparr>)\<rparr>"

definition env_odd_message :: env where
  "env_odd_message = env_ok\<lparr>fetch := (\<lambda>req.
     Inr \<lparr>ok = False,
         json = Inr (JObj [(''message'', JObj [(''toString'', JStr ''x'')])])\<rparr>)\<rparr>"

definition env_unavailable :: env where
  "env_unavailable = env_ok\<lparr>fetch := (\<lambda>req.
     Inr \<lparr>ok = False, json = Inr (JObj [(''error'', JStr ''unavailable'')])\<rparr>)\<rparr>"

section \<open>Remote service client\<close>

lemmas io_defs = try_catch_def io_bind_def io_return_def io_throw_def io_lift_def
  getItem_def do_fetch_def

lemma login_returns: "\<exists>v. fst (login e u pw w) = Inr v"
  by (simp add: login_def io_defs split: sum.splits prod.splits)

lemma validateToken_returns: "\<exists>v. fst (validateToken e w) = Inr v"
  by (simp add: validateToken_def io_defs split: sum.splits prod.splits)

lemma getStatus_returns: "\<exists>v. fst (getStatus e w) = Inr v"
  by (simp add: getStatus_def io_defs split: sum.splits prod.splits)

lemma getTasks_returns: "\<exists>v. fst (getTasks e w) = Inr v"
  by (simp add: getTasks_def io_defs split: sum.splits prod.splits)

lemma login_fails:
  assumes "request_fails e (login_request e u pw)"
  shows "\<exists>m. m \<noteq> [] \<and>
    fst (login e u pw w) = Inr (JObj [(''success'', JBool False), (''message'', JStr m)])"
  using assms
  by (auto simp add: request_fails_def login_def io_defs or_else_string_def
      split: sum.splits prod.splits)

lemma validateToken_fails:
  assumes "request_fails e (validate_request e (localStorage w ''phoneComputeToken''))"
  shows "fst (validateToken e w) = Inr \<lparr>valid = False\<rparr>"
  using assms
  by (auto simp add: request_fails_def validateToken_def io_defs split: sum.splits prod.splits)

lemma getStatus_fails:
  assumes "request_fails e (status_request e (localStorage w ''phoneComputeToken''))"
  shows "fst (getStatus e w) =
    Inr (JObj [(''availablePhones'', JNum 0), (''busyPhones'', JNum 0),
               (''averageProcessingTime'', JNum 0)])"
  using assms
  by (auto simp add: request_fails_def getStatus_def io_defs split: sum.splits prod.splits)

lemma getTasks_fails:
  assumes "request_fails e (tasks_request e (localStorage w ''phoneComputeToken''))"
  shows "fst (getTasks e w) = Inr (JArr [])"
  using assms
  by (auto simp add: request_fails_def getTasks_def io_defs split: sum.splits prod.splits)

text \<open>
  C3. When the request is rejected or the response is not OK, \<open>login\<close> returns an
  object with \<open>success\<close> false and a message, \<open>validateToken\<close> returns invalid,
  \<open>getStatus\<close> returns the three zeros and \<open>getTasks\<close> returns the empty list;
  and whatever the network does, none of the four throws.
\<close>

theorem failures_are_swallowed:
  "(request_fails e (login_request e u pw) \<longrightarrow>
      (\<exists>m. m \<noteq> [] \<and>
         fst (login e u pw w) = Inr (JObj [(''success'', JBool False), (''message'', JStr m)]))) \<and>
   (request_fails e (validate_request e (localStorage w ''phoneComputeToken'')) \<longrightarrow>
      fst (validateToken e w) = Inr \<lparr>valid = False\<rparr>) \<and>
   (request_fails e (status_request e (localStorage w ''phoneComputeToken'')) \<longrightarrow>
      fst (getStatus e w) =
        Inr (JObj [(''availablePhones'', JNum 0), (''busyPhones'', JNum 0),
                   (''averageProcessingTime'', JNum 0)])) \<and>
   (request_fails e (tasks_request e (localStorage w ''phoneComputeToken'')) \<longrightarrow>
      fst (getTasks e w) = Inr (JArr [])) \<and>
   (\<exists>v. fst (login e u pw w) = Inr v) \<and>
   (\<exists>v. fst (validateToken e w) = Inr v) \<and>
   (\<exists>v. fst (getStatus e w) = Inr v) \<and>
   (\<exists>v. fst (getTasks e w) = Inr v)"
  by (intro conjI impI;
      (erule login_fails | erule validateToken_fails | erule getStatus_fails |
       erule getTasks_fails | rule login_returns | rule validateToken_returns |
       rule getStatus_returns | rule getTasks_returns))

theorem failures_are_swallowed_witness:
  "request_fails env_down (login_request env_down ''test'' ''password'') \<and>
   request_fails env_gateway (validate_request env_gateway (localStorage world0 ''phoneComputeToken'')) \<and>
   request_fails env_rejecting (status_request env_rejecting (localStorage world0 ''phoneComputeToken'')) \<and>
   request_fails env_down (tasks_request env_down (localStorage world0 ''phoneComputeToken'')) \<and>
   fst (login env_down ''test'' ''password'' world0) =
     Inr (JObj [(''success'', JBool False), (''message'', JStr ''Failed to fetch'')]) \<and>
   fst (validateToken env_gateway world0) = Inr \<lparr>valid = False\<rparr> \<and>
   fst (getStatus env_rejecting world0) =
     Inr (JObj [(''availablePhones'', JNum 0), (''busyPhones'', JNum 0),
                (''averageProcessingTime'', JNum 0)]) \<and>
   fst (getTasks env_down world0) = Inr (JArr [])"
proof -
  have h1: "request_fails env_down (login_request env_down ''test'' ''password'')"
    by (simp add: request_fails_def env_down_def)
  have h2: "request_fails env_gateway
      (validate_request env_gateway (localStorage world0 ''phoneComputeToken''))"
    by (simp add: request_fails_def env_gateway_def)
  have h3: "request_fails env_rejecting
      (status_request env_rejecting (localStorage world0 ''phoneComputeToken''))"
    by (simp add: request_fails_def env_rejecting_def)
  have h4: "request_fails env_down (tasks_request env_down (localStorage world0 ''phoneComputeToken''))"
    by (simp add: request_fails_def env_down_def)
  have l: "fst (login env_down ''test'' ''password'' world0) =
     Inr (JObj [(''success'', JBool False), (''message'', JStr ''Failed to fetch'')])"
    by (simp add: login_def io_defs env_down_def or_else_string_def)
  from failures_are_swallowed [of env_down "''test''" "''password''" world0]
       failures_are_swallowed [of env_gateway "''test''" "''password''" world0]
       failures_are_swallowed [of env_rejecting "''test''" "''password''" world0]
       h1 h2 h3 h4 l
  show ?thesis by simp
qed

lemma submitTask_fails:
  assumes "request_fails e (submit_request e (localStorage w ''phoneComputeToken'') c f)"
  shows "\<exists>err. fst (submitTask e c f w) = Inl err"
  using assms
  by (auto simp add: request_fails_def submitTask_def io_defs split: sum.splits prod.splits)

lemma submitTask_not_ok:
  assumes "fetch e (submit_request e (localStorage w ''phoneComputeToken'') c f) = Inr r"
    and "\<not> ok r"
  shows "fst (submitTask e c f w) =
    (case json r of
       Inl err \<Rightarrow> Inl err
     | Inr errorData \<Rightarrow>
         (case get_prop errorData ''message'' of
            Inl err \<Rightarrow> Inl err
          | Inr m \<Rightarrow>
              (case ToString (Number_toString e) (or_else m ''Failed to submit task'') of
                 Inl err \<Rightarrow> Inl err
               | Inr msg \<Rightarrow> Inl (Error msg))))"
  using assms
  by (simp add: submitTask_def io_defs split: sum.splits prod.splits)

text \<open>
  C4, as amended. \<open>submitTask\<close> throws on every rejected request and on every
  response that is not OK, and never returns a value then. When the body of such a
  response parses to a value other than null, the message of the error is the body's
  \<open>message\<close>, converted to a string, if that is truthy, and \<open>Failed to submit task\<close>
  otherwise; when the body does not parse, or is null, or its message cannot be
  converted to a string, the error of the parser, of the property read or of the
  conversion is the one thrown. The other four operations never throw.
\<close>

theorem submitTask_propagates_failure:
  "(request_fails e (submit_request e (localStorage w ''phoneComputeToken'') c f) \<longrightarrow>
      (\<exists>err. fst (submitTask e c f w) = Inl err)) \<and>
   (\<forall>r data m msg.
      fetch e (submit_request e (localStorage w ''phoneComputeToken'') c f) = Inr r \<and>
      \<not> ok r \<and> json r = Inr data \<and> get_prop data ''message'' = Inr (Some m) \<and> truthy m \<and>
      ToString (Number_toString e) m = Inr msg \<longrightarrow>
      fst (submitTask e c f w) = Inl (Error msg)) \<and>
   (\<forall>r data s.
      fetch e (submit_request e (localStorage w ''phoneComputeToken'') c f) = Inr r \<and>
      \<not> ok r \<and> json r = Inr data \<and> get_prop data ''message'' = Inr (Some (JStr s)) \<and> s \<noteq> [] \<longrightarrow>
      fst (submitTask e c f w) = Inl (Error s)) \<and>
   (\<forall>r data.
      fetch e (submit_request e (localStorage w ''phoneComputeToken'') c f) = Inr r \<and>
      \<not> ok r \<and> json r = Inr data \<and>
      (get_prop data ''message'' = Inr None \<or>
       (\<exists>m. get_prop data ''message'' = Inr (Some m) \<and> \<not> truthy m)) \<longrightarrow>
      fst (submitTask e c f w) = Inl (Error ''Failed to submit task'')) \<and>
   (\<forall>r err.
      fetch e (submit_request e (localStorage w ''phoneComputeToken'') c f) = Inr r \<and>
      \<not> ok r \<and>
      (json r = Inl err \<or>
       (json r = Inr JNull \<and> get_prop JNull ''message'' = Inl err) \<or>
       (\<exists>data m. json r = Inr data \<and> get_prop data ''message'' = Inr (Some m) \<and> truthy m \<and>
          ToString (Number_toString e) m = Inl err)) \<longrightarrow>
      fst (submitTask e c f w) = Inl err) \<and>
   (\<exists>v. fst (login e u pw w) = Inr v) \<and>
   (\<exists>v. fst (validateToken e w) = Inr v) \<and>
   (\<exists>v. fst (getStatus e w) = Inr v) \<and>
   (\<exists>v. fst (getTasks e w) = Inr v)"
proof (intro conjI allI impI)
  assume "request_fails e (submit_request e (localStorage w ''phoneComputeToken'') c f)"
  then show "\<exists>err. fst (submitTask e c f w) = Inl err"
    by (rule submitTask_fails)
next
  fix r data m msg
  assume "fetch e (submit_request e (localStorage w ''phoneComputeToken'') c f) = Inr r \<and>
      \<not> ok r \<and> json r = Inr data \<and> get_prop data ''message'' = Inr (Some m) \<and> truthy m \<and>
      ToString (Number_toString e) m = Inr msg"
  then show "fst (submitTask e c f w) = Inl (Error msg)"
    by (simp add: submitTask_not_ok or_else_def)
next
  fix r data s
  assume "fetch e (submit_request e (localStorage w ''phoneComputeToken'') c f) = Inr r \<and>
      \<not> ok r \<and> json r = Inr data \<and> get_prop data ''message'' = Inr (Some (JStr s)) \<and> s \<noteq> []"
  then show "fst (submitTask e c f w) = Inl (Error s)"
    by (simp add: submitTask_not_ok or_else_def)
next
  fix r data
  assume "fetch e (submit_request e (localStorage w ''phoneComputeToken'') c f) = Inr r \<and>
      \<not> ok r \<and> json r = Inr data \<and>
      (get_prop data ''message'' = Inr None \<or>
       (\<exists>m. get_prop data ''message'' = Inr (Some m) \<and> \<not> truthy m))"
  then show "fst (submitTask e c f w) = Inl (Error ''Failed to submit task'')"
    by (auto simp add: submitTask_not_ok or_else_def)
next
  fix r err
  assume "fetch e (submit_request e (localStorage w ''phoneComputeToken'') c f) = Inr r \<and>
      \<not> ok r \<and>
      (json r = Inl err \<or>
       (json r = Inr JNull \<and> get_prop JNull ''message'' = Inl err) \<or>
       (\<exists>data m. json r = Inr data \<and> get_prop data ''message'' = Inr (Some m) \<and> truthy m \<and>
          ToString (Number_toString e) m = Inl err))"
  then show "fst (submitTask e c f w) = Inl err"
    by (auto simp add: submitTask_not_ok or_else_def simp del: get_prop.simps)
qed (rule login_returns validateToken_returns getStatus_returns getTasks_returns)+

theorem submitTask_propagates_failure_witness:
  "fst (submitTask env_rejecting ''return 42'' None world0) = Inl (Error ''Queue is full'') \<and>
   fst (submitTask env_unavailable ''return 42'' None world0) = Inl (Error ''Failed to submit task'') \<and>
   fst (submitTask env_odd_message ''return 42'' None world0) =
     Inl (Exn ''TypeError'' ''Cannot convert object to primitive value'') \<and>
   fst (submitTask env_down ''return 42'' None world0) = Inl (Exn ''TypeError'' ''Failed to fetch'')"
proof -
  have a: "fetch env_rejecting
      (submit_request env_rejecting (localStorage world0 ''phoneComputeToken'') ''return 42'' None) =
      Inr \<lparr>ok = False, json = Inr (JObj [(''message'', JStr ''Queue is full'')])\<rparr>"
    by (simp add: env_rejecting_def)
  have b: "fetch env_unavailable
      (submit_request env_unavailable (localStorage world0 ''phoneComputeToken'') ''return 42'' None) =
      Inr \<lparr>ok = False, json = Inr (JObj [(''error'', JStr ''unavailable'')])\<rparr>"
    by (simp add: env_unavailable_def)
  have o: "fetch env_odd_message
      (submit_request env_odd_message (localStorage world0 ''phoneComputeToken'') ''return 42'' None) =
      Inr \<lparr>ok = False, json = Inr (JObj [(''message'', JObj [(''toString'', JStr ''x'')])])\<rparr>"
    by (simp add: env_odd_message_def)
  have c: "request_fails env_down
      (submit_request env_down (localStorage world0 ''phoneComputeToken'') ''return 42'' None)"
    by (simp add: request_fails_def env_down_def)
  have d: "fst (submitTask env_down ''return 42'' None world0) = Inl (Exn ''TypeError'' ''Failed to fetch'')"
    by (simp add: submitTask_def io_defs env_down_def)
  from submitTask_propagates_failure [of env_rejecting world0 "''return 42''" None]
  have "fst (submitTask env_rejecting ''return 42'' None world0) = Inl (Error ''Queue is full'')"
    using a by simp
  moreover
  from submitTask_propagates_failure [of env_unavailable world0 "''return 42''" None]
  have "fst (submitTask env_unavailable ''return 42'' None world0) = Inl (Error ''Failed to submit task'')"
    using b by simp
  moreover
  from submitTask_propagates_failure [of env_odd_message world0 "''return 42''" None]
  have "fst (submitTask env_odd_message ''return 42'' None world0) =
      Inl (Exn ''TypeError'' ''Cannot convert object to primitive value'')"
    using o by simp
  moreover note c d
  ultimately show ?thesis
    by (simp only: simp_thms)
qed

theorem submitTask_unparsed_body_counterexample:
  "fetch env_gateway
     (submit_request env_gateway (localStorage world0 ''phoneComputeToken'') ''return 42'' None) =
     Inr \<lparr>ok = False, json = Inl (Exn ''SyntaxError'' ''Unexpected token < in JSON at position 0'')\<rparr> \<and>
   fst (submitTask env_gateway ''return 42'' None world0) =
     Inl (Exn ''SyntaxError'' ''Unexpected token < in JSON at position 0'') \<and>
   message (Exn ''SyntaxError'' ''Unexpected token < in JSON at position 0'') \<noteq> ''Failed to submit task''"
  by (simp add: submitTask_def io_defs env_gateway_def)

text \<open>
  C7. With no token in local storage \<open>validateToken\<close> returns invalid and leaves the
  world as it was: the log of requests has no new entry.
\<close>

theorem validateToken_without_token:
  assumes "localStorage w ''phoneComputeToken'' = None"
  shows "validateToken e w = (Inr \<lparr>valid = False\<rparr>, w) \<and>
         requests (snd (validateToken e w)) = requests w"
  using assms
  by (simp add: validateToken_def io_defs truthy_string_def)

theorem validateToken_without_token_witness:
  "validateToken env_ok \<lparr>localStorage = Map.empty, requests = []\<rparr> =
     (Inr \<lparr>valid = False\<rparr>, \<lparr>localStorage = Map.empty, requests = []\<rparr>)"
  using validateToken_without_token [of "\<lparr>localStorage = Map.empty, requests = []\<rparr>" env_ok]
  by simp

section \<open>Session\<close>

text \<open>
  C2, as amended. The flag \<open>isAuthenticated\<close> is true exactly when the token held
  is neither null nor the empty string.
\<close>

theorem isAuthenticated_iff_nonempty_token:
  "isAuthenticated s \<longleftrightarrow> (\<exists>t. userToken s = Some t \<and> t \<noteq> [])"
  by (cases "userToken s") (simp_all add: isAuthenticated_def truthy_string_def)

theorem isAuthenticated_empty_token_counterexample:
  "userToken (AuthProvider_init \<lparr>localStorage = [''phoneComputeToken'' \<mapsto> []], requests = []\<rparr>)
     \<noteq> None \<and>
   \<not> isAuthenticated
       (AuthProvider_init \<lparr>localStorage = [''phoneComputeToken'' \<mapsto> []], requests = []\<rparr>)"
  by (simp add: AuthProvider_init_def isAuthenticated_def truthy_string_def)

section \<open>File selection\<close>

lemma size_limit_MB: "string_of_nat (MAX_FILE_SIZE div 1024 div 1024) = ''5''"
  by (simp add: MAX_FILE_SIZE_def string_of_nat.simps)

text \<open>
  C5. The size check has its boundary at 5 MiB, inclusive: a selected file of 5,242,881
  bytes or more only sets the size-limit message and leaves the selected file of the
  page as it was; a file of exactly 5,242,880 bytes whose type is allowed (or whose name
  ends in .js) becomes the selected file and the error is cleared.
\<close>

theorem handleFileChange_size_boundary:
  "(size' f \<ge> 5242881 \<longrightarrow>
      handleFileChange (Some f) p =
        p\<lparr>error := Some ''File size exceeds the maximum limit of 5MB''\<rparr>) \<and>
   (size' f = 5242880 \<and> (Array_includes allowedTypes (type f) \<or> endsWith (name f) ''.js'') \<longrightarrow>
      handleFileChange (Some f) p = p\<lparr>file := Some f, error := None\<rparr>)"
proof (intro conjI impI)
  assume "size' f \<ge> 5242881"
  then have "size' f > MAX_FILE_SIZE"
    by (simp add: MAX_FILE_SIZE_def)
  then show "handleFileChange (Some f) p =
      p\<lparr>error := Some ''File size exceeds the maximum limit of 5MB''\<rparr>"
    by (simp add: handleFileChange_def size_limit_MB)
next
  assume a: "size' f = 5242880 \<and>
    (Array_includes allowedTypes (type f) \<or> endsWith (name f) ''.js'')"
  then have "\<not> size' f > MAX_FILE_SIZE"
    by (simp add: MAX_FILE_SIZE_def)
  with a show "handleFileChange (Some f) p = p\<lparr>file := Some f, error := None\<rparr>"
    by (auto simp add: handleFileChange_def)
qed

theorem handleFileChange_size_boundary_witness:
  "size' \<lparr>name = ''big.txt'', size' = 5242881, type = ''text/plain''\<rparr> \<ge> 5242881 \<and>
   handleFileChange (Some \<lparr>name = ''big.txt'', size' = 5242881, type = ''text/plain''\<rparr>) page0
     = page0\<lparr>error := Some ''File size exceeds the maximum limit of 5MB''\<rparr> \<and>
   size' \<lparr>name = ''max.txt'', size' = 5242880, type = ''text/plain''\<rparr> = 5242880 \<and>
   Array_includes allowedTypes (type \<lparr>name = ''max.txt'', size' = 5242880, type = ''text/plain''\<rparr>) \<and>
   handleFileChange (Some \<lparr>name = ''max.txt'', size' = 5242880, type = ''text/plain''\<rparr>) page0
     = page0\<lparr>file := Some \<lparr>name = ''max.txt'', size' = 5242880, type = ''text/plain''\<rparr>,
             error := None\<rparr>"
  using handleFileChange_size_boundary
          [of "\<lparr>name = ''big.txt'', size' = 5242881, type = ''text/plain''\<rparr>" page0]
        handleFileChange_size_boundary
          [of "\<lparr>name = ''max.txt'', size' = 5242880, type = ''text/plain''\<rparr>" page0]
  by (simp add: Array_includes_def allowedTypes_def)

lemma endsWith_iff: "endsWith s t \<longleftrightarrow> (\<exists>u. s = u @ t)"
proof
  assume "endsWith s t"
  then have "s = take (length s - length t) s @ t"
    by (metis append_take_drop_id endsWith_def)
  then show "\<exists>u. s = u @ t" ..
next
  assume "\<exists>u. s = u @ t"
  then show "endsWith s t" by (auto simp add: endsWith_def)
qed

text \<open>
  C6. A selected file within the size limit is accepted (it becomes the selected
  file and the error is cleared) exactly when its MIME type is one of text/javascript,
  application/javascript, application/json, text/plain or its name ends in .js; otherwise
  the page only shows the file-type error. Either way the event issues no request.
\<close>

theorem handleFileChange_type_check:
  assumes "size' f \<le> 5242880"
  shows "(type f \<in> {''text/javascript'', ''application/javascript'', ''application/json'', ''text/plain''}
            \<or> (\<exists>u. name f = u @ ''.js'') \<longrightarrow>
          dispatch e (FileChange (Some f)) (p, w) = (p\<lparr>file := Some f, error := None\<rparr>, w)) \<and>
         (\<not> (type f \<in> {''text/javascript'', ''application/javascript'', ''application/json'', ''text/plain''}
            \<or> (\<exists>u. name f = u @ ''.js'')) \<longrightarrow>
          dispatch e (FileChange (Some f)) (p, w) =
            (p\<lparr>error := Some ''Please upload a JavaScript file (.js) or JSON data file''\<rparr>, w))"
proof -
  from assms have "\<not> size' f > MAX_FILE_SIZE"
    by (simp add: MAX_FILE_SIZE_def)
  moreover have "Array_includes allowedTypes (type f) \<longleftrightarrow>
      type f \<in> {''text/javascript'', ''application/javascript'', ''application/json'', ''text/plain''}"
    by (simp add: Array_includes_def allowedTypes_def)
  ultimately show ?thesis
    by (simp add: handleFileChange_def endsWith_iff)
qed

theorem handleFileChange_type_check_witness:
  "dispatch env_ok (FileChange (Some \<lparr>name = ''script.js'', size' = 120, type = []\<rparr>)) (page0, world0)
     = (page0\<lparr>file := Some \<lparr>name = ''script.js'', size' = 120, type = []\<rparr>, error := None\<rparr>, world0) \<and>
   dispatch env_ok (FileChange (Some \<lparr>name = ''data.csv'', size' = 120, type = ''text/csv''\<rparr>)) (page0, world0)
     = (page0\<lparr>error := Some ''Please upload a JavaScript file (.js) or JSON data file''\<rparr>, world0)"
proof -
  have a: "\<exists>u. ''script.js'' = u @ ''.js''"
    by (rule exI [of _ "''script''"]) simp
  have b: "\<not> (\<exists>u. ''data.csv'' = u @ ''.js'')"
    by (simp add: endsWith_iff [symmetric] endsWith_def)
  show ?thesis
    using handleFileChange_type_check
            [of "\<lparr>name = ''script.js'', size' = 120, type = []\<rparr>" env_ok page0 world0]
          handleFileChange_type_check
            [of "\<lparr>name = ''data.csv'', size' = 120, type = ''text/csv''\<rparr>" env_ok page0 world0]
          a b
    by simp
qed


section \<open>Submission\<close>

lemma all_dropWhile: "(\<forall>x\<in>set (dropWhile P s). P x) \<longleftrightarrow> (\<forall>x\<in>set s. P x)"
  by (induction s) auto

lemma trim_Nil_iff: "trim s = [] \<longleftrightarrow> (\<forall>c\<in>set s. isWhiteSpace c)"
  by (simp add: trim_def all_dropWhile)

lemma trim_whitespace: "\<forall>c\<in>set s. isWhiteSpace c \<Longrightarrow> trim s = []"
  by (simp add: trim_Nil_iff)

text \<open>
  C8. Submitting when the code holds nothing but white space and no file is attached
  sets the error message and changes nothing else: no request is issued and the task
  list stays as it was.
\<close>

theorem handleSubmit_nothing_to_submit:
  assumes "\<forall>c\<in>set (code p). isWhiteSpace c" and "file p = None"
  shows "handleSubmit e (p, w) =
           (p\<lparr>error := Some ''Please provide JavaScript code or attach a file''\<rparr>, w)"
  using assms by (simp add: handleSubmit_def trim_whitespace)

theorem handleSubmit_nothing_to_submit_witness:
  "handleSubmit env_ok (page0\<lparr>code := [CHR '' '', CHR 0x0A, CHR 0x09], userTasks := [task_json]\<rparr>, world0) =
     (page0\<lparr>code := [CHR '' '', CHR 0x0A, CHR 0x09], userTasks := [task_json],
            error := Some ''Please provide JavaScript code or attach a file''\<rparr>, world0)"
proof -
  have ws: "\<forall>c\<in>set [CHR '' '', CHR 0x0A, CHR 0x09]. isWhiteSpace c"
    by (simp add: isWhiteSpace_def)
  show ?thesis
    using ws handleSubmit_nothing_to_submit
      [of "page0\<lparr>code := [CHR '' '', CHR 0x0A, CHR 0x09], userTasks := [task_json]\<rparr>" env_ok world0]
    by (simp add: page0_def)
qed

text \<open>
  C9. When the submission passes the check and \<open>submitTask\<close> returns a task, the new
  task list is that task followed by the previous list, entry for entry.
\<close>

theorem handleSubmit_prepends:
  assumes "\<not> ((\<forall>c\<in>set (code p). isWhiteSpace c) \<and> file p = None)"
    and "submitTask e (code p) (file p) w = (Inr taskData, w')"
  shows "userTasks (fst (handleSubmit e (p, w))) = taskData # userTasks p \<and>
         handleSubmit e (p, w) =
           (p\<lparr>userTasks := taskData # userTasks p, code := [], file := None,
              isSubmitting := False, error := None\<rparr>, w')"
  using assms by (simp add: handleSubmit_def trim_Nil_iff)

lemma submitTask_env_ok:
  "submitTask env_ok ''return 42'' None world0 =
     (Inr task_json,
      world0\<lparr>requests := [submit_request env_ok (Some ''mock-token-12345'') ''return 42'' None]\<rparr>)"
  by (simp add: submitTask_def try_catch_def io_bind_def getItem_def do_fetch_def io_lift_def
      io_throw_def env_ok_def world0_def)

theorem handleSubmit_prepends_witness:
  "userTasks (fst (handleSubmit env_ok
      (page0\<lparr>code := ''return 42'', userTasks := [JObj [(''id'', JStr ''old'')], JNull]\<rparr>, world0)))
     = [task_json, JObj [(''id'', JStr ''old'')], JNull]"
proof -
  have g: "\<not> ((\<forall>c\<in>set (code (page0\<lparr>code := ''return 42'',
               userTasks := [JObj [(''id'', JStr ''old'')], JNull]\<rparr>)). isWhiteSpace c) \<and>
             file (page0\<lparr>code := ''return 42'',
               userTasks := [JObj [(''id'', JStr ''old'')], JNull]\<rparr>) = None)"
    by (simp add: isWhiteSpace_def)
  have s: "submitTask env_ok
             (code (page0\<lparr>code := ''return 42'', userTasks := [JObj [(''id'', JStr ''old'')], JNull]\<rparr>))
             (file (page0\<lparr>code := ''return 42'', userTasks := [JObj [(''id'', JStr ''old'')], JNull]\<rparr>))
             world0 =
           (Inr task_json,
            world0\<lparr>requests := [submit_request env_ok (Some ''mock-token-12345'') ''return 42'' None]\<rparr>)"
    by (simp add: page0_def submitTask_env_ok)
  show ?thesis
    using handleSubmit_prepends [OF g s] by simp
qed

section \<open>Estimated completion\<close>

text \<open>
  C10. A task without the property \<open>estimatedCompletionTime\<close>, or with the empty
  string there, is rendered as Unknown, whatever the current time is.
\<close>

theorem formatEstimatedTime_unknown:
  assumes "map_of kvs ''estimatedCompletionTime'' = None \<or>
           map_of kvs ''estimatedCompletionTime'' = Some (JStr [])"
  shows "formatEstimatedTime e now (JObj kvs) = Inr ''Unknown''"
  using assms by (auto simp add: formatEstimatedTime_def)

theorem formatEstimatedTime_unknown_witness:
  "formatEstimatedTime env_ok 1735689600000 task_json = Inr ''Unknown'' \<and>
   formatEstimatedTime env_ok 0 (JObj [(''estimatedCompletionTime'', JStr [])]) = Inr ''Unknown''"
  using formatEstimatedTime_unknown
          [of "[(''id'', JStr ''task123''), (''status'', JStr ''pending''),
                (''code'', JStr ''return 42''), (''createdAt'', JStr ''2025-01-01T00:00:00.000Z'')]"
              env_ok 1735689600000]
        formatEstimatedTime_unknown [of "[(''estimatedCompletionTime'', JStr [])]" env_ok 0]
  by (simp add: task_json_def)

lemma Math_round_minutes: "Math_round (real_of_int d / 60000) = (d + 30000) div 60000"
proof -
  have "real_of_int d / 60000 + 1 / 2 = real_of_int (d + 30000) / real_of_int 60000"
    by simp
  then show ?thesis
    unfolding Math_round_def by (simp only: floor_divide_of_int_eq)
qed

lemma Math_round_half_up:
  "Math_round x = n \<longleftrightarrow> real_of_int n - 1 / 2 \<le> x \<and> x < real_of_int n + 1 / 2"
  unfolding Math_round_def by (auto simp add: floor_eq_iff)

lemma string_of_int_2: "string_of_int 2 = ''2''"
  by (simp add: string_of_int_def string_of_nat.simps)

lemma formatEstimatedTime_future:
  assumes "get_prop task ''estimatedCompletionTime'' = Inr (Some v)"
    and "truthy v" and "new_Date e v = Inr (Some t)" and "now \<le> t"
    and "d = Math_round (real_of_int (t - now) / 60000)"
  shows "formatEstimatedTime e now task =
      (if d < 1 then Inr ''Less than a minute''
       else if d = 1 then Inr ''1 minute''
       else if d < 60 then Inr (string_of_int d @ '' minutes'')
       else
         Inr (string_of_int (d div 60) @ '' hour'' @ (if d div 60 > 1 then ''s'' else []) @ '' '' @
              (if d mod 60 > 0
               then string_of_int (d mod 60) @ '' minute'' @ (if d mod 60 > 1 then ''s'' else [])
               else [])))"
proof -
  have n: "(t < now) = False"
    using assms(4) by simp
  show ?thesis
    by (simp only: formatEstimatedTime_def assms(1,2,3) n sum.case option.case if_False if_True
        not_True_eq_False not_False_eq_True Let_def assms(5) [symmetric])
qed

text \<open>
  C1. For an estimate that is not in the past, the remaining milliseconds are rounded
  to whole minutes, a half going up: 90 seconds are rendered as 2 minutes (truncation
  would give 1), a count below 1 as Less than a minute, a count of 1 as 1 minute and a
  count between 2 and 59 as that number followed by minutes.
\<close>

theorem formatEstimatedTime_rounds:
  assumes "get_prop task ''estimatedCompletionTime'' = Inr (Some v)"
    and "truthy v" and "new_Date e v = Inr (Some t)" and "now \<le> t"
  shows "Math_round (real_of_int (t - now) / 60000) = (t - now + 30000) div 60000 \<and>
         (t = now + 90000 \<longrightarrow> formatEstimatedTime e now task = Inr ''2 minutes'') \<and>
         (Math_round (real_of_int (t - now) / 60000) < 1 \<longrightarrow>
            formatEstimatedTime e now task = Inr ''Less than a minute'') \<and>
         (Math_round (real_of_int (t - now) / 60000) = 1 \<longrightarrow>
            formatEstimatedTime e now task = Inr ''1 minute'') \<and>
         (1 < Math_round (real_of_int (t - now) / 60000) \<and>
          Math_round (real_of_int (t - now) / 60000) < 60 \<longrightarrow>
            formatEstimatedTime e now task =
              Inr (string_of_int (Math_round (real_of_int (t - now) / 60000)) @ '' minutes''))"
proof -
  define d where "d = Math_round (real_of_int (t - now) / 60000)"
  note f = formatEstimatedTime_future [OF assms d_def]
  have c1: "d = (t - now + 30000) div 60000"
    unfolding d_def by (rule Math_round_minutes)
  have c2: "formatEstimatedTime e now task = Inr ''2 minutes''" if "t = now + 90000"
  proof -
    from that c1 have "d = 2" by simp
    then show ?thesis
      unfolding f by (simp add: string_of_int_2)
  qed
  have c3: "formatEstimatedTime e now task = Inr ''Less than a minute''" if "d < 1"
    unfolding f using that by simp
  have c4: "formatEstimatedTime e now task = Inr ''1 minute''" if "d = 1"
    unfolding f using that by simp
  have c5: "formatEstimatedTime e now task = Inr (string_of_int d @ '' minutes'')"
    if "1 < d \<and> d < 60"
    unfolding f using that by simp
  from c1 c2 c3 c4 c5 show ?thesis
    unfolding d_def by blast
qed

theorem formatEstimatedTime_rounds_witness:
  "formatEstimatedTime env_ok 1735689600000
     (JObj [(''id'', JStr ''task456''), (''status'', JStr ''processing''),
            (''estimatedCompletionTime'', JStr ''2025-01-01T00:01:30.000Z'')]) = Inr ''2 minutes''"
proof -
  have a: "get_prop (JObj [(''id'', JStr ''task456''), (''status'', JStr ''processing''),
            (''estimatedCompletionTime'', JStr ''2025-01-01T00:01:30.000Z'')])
           ''estimatedCompletionTime'' = Inr (Some (JStr ''2025-01-01T00:01:30.000Z''))"
    by simp
  have b: "truthy (JStr ''2025-01-01T00:01:30.000Z'')"
    by simp
  have c: "new_Date env_ok (JStr ''2025-01-01T00:01:30.000Z'') = Inr (Some 1735689690000)"
    by (simp add: new_Date_def env_ok_def)
  have d: "(1735689600000::int) \<le> 1735689690000"
    by simp
  show ?thesis
    using formatEstimatedTime_rounds [OF a b c d] by simp
qed

end
